theory Spec2Isabelle
  imports Complex_Main "HOL-Library.AList"
begin

section \<open>Data model\<close>

text \<open>
  A price series is a pandas DataFrame: an index of row labels and named columns of
  floating-point cells. A cell is modelled as \<open>real option\<close>: \<open>None\<close> is NaN, and
  \<open>Some x\<close> a number. The evaluator is modelled over real numbers: the indicators and
  the products of the price levels are exact. Rounding to double precision is modelled
  on its own and applied to the price levels, where a claim depends on it. The stop and
  take deviations are plain numbers.
\<close>

type_synonym cell = "real option"
type_synonym series = "cell list"
type_synonym row = "(string \<times> cell) list"

record dataframe =
  index :: "nat list"
  cols :: "(string \<times> series) list"

datatype exn = KeyError string | IndexError | OtherException string

text \<open>The dictionary returned for a non-neutral signal (lines 94 to 101).\<close>

record signal =
  ativo :: string
  sinal :: string
  preco_entrada :: cell
  stop_loss :: cell
  take_profit :: cell
  mensagem :: string

subsection \<open>DataFrame operations used by the program\<close>

text \<open>\<open>len(df)\<close> is the number of rows.\<close>

definition df_len :: "dataframe \<Rightarrow> nat" where
  "df_len df = length (index df)"

text \<open>\<open>df.empty\<close> holds when either axis has length zero.\<close>

definition df_empty :: "dataframe \<Rightarrow> bool" where
  "df_empty df \<longleftrightarrow> index df = [] \<or> cols df = []"

text \<open>\<open>df[name]\<close> raises KeyError when there is no such column.\<close>

definition df_get :: "dataframe \<Rightarrow> string \<Rightarrow> exn + series" where
  "df_get df name = (case map_of (cols df) name of None \<Rightarrow> Inl (KeyError name) | Some c \<Rightarrow> Inr c)"

text \<open>
  \<open>df[name] = s\<close> replaces the column in place when it exists and appends it otherwise.
  The assigned series is computed from the frame's own close column, so it carries the
  frame's labels; it is stored position by position, a missing position being NaN as after
  reindexing.
\<close>

definition align :: "nat \<Rightarrow> series \<Rightarrow> series" where
  "align n s = take n s @ replicate (n - length s) None"

definition df_set :: "dataframe \<Rightarrow> string \<Rightarrow> series \<Rightarrow> dataframe" where
  "df_set df name s = df\<lparr>cols := AList.update name (align (df_len df) s) (cols df)\<rparr>"

text \<open>
  \<open>df.dropna(inplace=True)\<close> keeps the rows in which every column holds a number.
\<close>

definition row_ok :: "dataframe \<Rightarrow> nat \<Rightarrow> bool" where
  "row_ok df i \<longleftrightarrow> list_all (\<lambda>(name, c). i < length c \<and> c ! i \<noteq> None) (cols df)"

definition kept :: "dataframe \<Rightarrow> nat list" where
  "kept df = filter (row_ok df) [0..<df_len df]"

definition dropna :: "dataframe \<Rightarrow> dataframe" where
  "dropna df = \<lparr>index = map (\<lambda>i. index df ! i) (kept df),
                cols = map (\<lambda>(name, c). (name, map (\<lambda>i. c ! i) (kept df))) (cols df)\<rparr>"

text \<open>\<open>df.iloc[-1]\<close> is the last row; it raises IndexError on a frame without rows.\<close>

definition iloc_last :: "dataframe \<Rightarrow> exn + row" where
  "iloc_last df =
     (if index df = [] then Inl IndexError
      else Inr (map (\<lambda>(name, c). (name, if c = [] then None else last c)) (cols df)))"

definition row_get :: "row \<Rightarrow> string \<Rightarrow> exn + cell" where
  "row_get r name = (case map_of r name of None \<Rightarrow> Inl (KeyError name) | Some v \<Rightarrow> Inr v)"

text \<open>Comparisons and products of floats: a comparison with NaN is false, a product with NaN is NaN.\<close>

definition cell_gt :: "cell \<Rightarrow> cell \<Rightarrow> bool" where
  "cell_gt a b = (case (a, b) of (Some x, Some y) \<Rightarrow> x > y | _ \<Rightarrow> False)"

definition cell_lt :: "cell \<Rightarrow> cell \<Rightarrow> bool" where
  "cell_lt a b = (case (a, b) of (Some x, Some y) \<Rightarrow> x < y | _ \<Rightarrow> False)"

definition cell_times :: "cell \<Rightarrow> real \<Rightarrow> cell" where
  "cell_times a k = map_option (\<lambda>x. x * k) a"

section \<open>External collaborators\<close>

text \<open>
  The indicator classes of the \<open>ta\<close> package and the \<open>.4f\<close> float formatting are not
  code of the program. They are parameters of the evaluator: each indicator maps the
  close column to a series or raises.  \<open>bollinger_bands w k c\<close> stands for the call
  \<open>BollingerBands(c, window=w, window_dev=k)\<close>: it raises or yields the object, which
  is given by what its methods \<open>bollinger_hband()\<close> and \<open>bollinger_lband()\<close> do, each
  returning a series or raising.
\<close>

type_synonym bands = "(exn + series) \<times> (exn + series)"

record lib =
  ema_indicator :: "nat \<Rightarrow> series \<Rightarrow> exn + series"
  macd :: "series \<Rightarrow> exn + series"
  rsi :: "series \<Rightarrow> exn + series"
  bollinger_bands :: "nat \<Rightarrow> real \<Rightarrow> series \<Rightarrow> exn + bands"
  format_4f :: "real \<Rightarrow> string"

section \<open>The notifier\<close>

text \<open>\<open>send_telegram_message\<close> (lines 42 to 46) prints the message: it is appended to the outbox.\<close>

definition send_telegram_message :: "string \<Rightarrow> string list \<Rightarrow> string list" where
  "send_telegram_message message outbox = outbox @ [message]"

section \<open>The evaluator \<open>analisar_ativo\<close>\<close>

text \<open>One statement \<open>df[name] = Indicator(df['Close'], ...).method()\<close> (lines 70 to 73).\<close>

definition add_indicator :: "dataframe \<Rightarrow> string \<Rightarrow> (series \<Rightarrow> exn + series) \<Rightarrow> exn + dataframe" where
  "add_indicator df name ind =
     (case df_get df ''Close'' of
        Inl e \<Rightarrow> Inl e
      | Inr c \<Rightarrow> (case ind c of Inl e \<Rightarrow> Inl e | Inr s \<Rightarrow> Inr (df_set df name s)))"

text \<open>
  Lines 74 to 76: the object is built, then each band is read and stored. The result is
  the frame after these lines and the exception raised, if any.
\<close>

definition add_bollinger :: "lib \<Rightarrow> dataframe \<Rightarrow> dataframe \<times> exn option" where
  "add_bollinger L df =
     (case df_get df ''Close'' of
        Inl e \<Rightarrow> (df, Some e)
      | Inr c \<Rightarrow>
     (case bollinger_bands L 20 2 c of
        Inl e \<Rightarrow> (df, Some e)
      | Inr bollinger \<Rightarrow>
     (case fst bollinger of
        Inl e \<Rightarrow> (df, Some e)
      | Inr hband \<Rightarrow>
     (case snd bollinger of
        Inl e \<Rightarrow> (df_set df ''BB_High'' hband, Some e)
      | Inr lband \<Rightarrow> (df_set (df_set df ''BB_High'' hband) ''BB_Low'' lband, None)))))"

text \<open>
  Lines 70 to 76. The frame is mutated statement by statement, so an exception leaves it
  as the last completed statement left it. The result is the frame after these lines and
  the exception raised, if any.
\<close>

definition add_indicators :: "lib \<Rightarrow> dataframe \<Rightarrow> dataframe \<times> exn option" where
  "add_indicators L df0 =
     (case add_indicator df0 ''EMA9'' (ema_indicator L 9) of
        Inl e \<Rightarrow> (df0, Some e)
      | Inr df1 \<Rightarrow>
     (case add_indicator df1 ''EMA21'' (ema_indicator L 21) of
        Inl e \<Rightarrow> (df1, Some e)
      | Inr df2 \<Rightarrow>
     (case add_indicator df2 ''MACD'' (macd L) of
        Inl e \<Rightarrow> (df2, Some e)
      | Inr df3 \<Rightarrow>
     (case add_indicator df3 ''RSI'' (rsi L) of
        Inl e \<Rightarrow> (df3, Some e)
      | Inr df4 \<Rightarrow>
        add_bollinger L df4))))"

text \<open>Lines 70 to 77: the indicator columns, then \<open>df.dropna(inplace=True)\<close>.\<close>

definition compute_indicators :: "lib \<Rightarrow> dataframe \<Rightarrow> dataframe \<times> exn option" where
  "compute_indicators L df0 =
     (case add_indicators L df0 of
        (df5, None) \<Rightarrow> (dropna df5, None)
      | (dfk, Some e) \<Rightarrow> (dfk, Some e))"

text \<open>Lines 85 to 89: the threshold rule on the last row's cells.\<close>

definition decide :: "cell \<Rightarrow> cell \<Rightarrow> cell \<Rightarrow> string" where
  "decide close ema9 rsi_v =
     (if cell_gt close ema9 \<and> cell_lt rsi_v (Some 30) then ''Compra''
      else if cell_lt close ema9 \<and> cell_gt rsi_v (Some 70) then ''Venda''
      else ''Neutro'')"

text \<open>Line 92: the f-string of the message.\<close>

definition format_cell :: "lib \<Rightarrow> cell \<Rightarrow> string" where
  "format_cell L c = (case c of None \<Rightarrow> ''nan'' | Some x \<Rightarrow> format_4f L x)"

definition mensagem_de :: "lib \<Rightarrow> string \<Rightarrow> string \<Rightarrow> string \<Rightarrow> cell \<Rightarrow> string" where
  "mensagem_de L ativo_nome mercado_nome s close =
     ''Sinal para '' @ ativo_nome @ '' ('' @ mercado_nome @ ''): '' @ s @ '' @ '' @ format_cell L close"

text \<open>
  Lines 84 to 102, on the frame left by \<open>dropna\<close>: the signal returned, if any, and the
  messages handed to the notifier.
\<close>

definition decision :: "lib \<Rightarrow> dataframe \<Rightarrow> string \<Rightarrow> string \<Rightarrow> real \<Rightarrow> real \<Rightarrow> exn + (signal option \<times> string list)" where
  "decision L df ativo_nome mercado_nome stop_dev take_dev =
     (case iloc_last df of
        Inl e \<Rightarrow> Inl e
      | Inr last_row \<Rightarrow>
     (case row_get last_row ''Close'' of
        Inl e \<Rightarrow> Inl e
      | Inr close \<Rightarrow>
     (case row_get last_row ''EMA9'' of
        Inl e \<Rightarrow> Inl e
      | Inr ema9 \<Rightarrow>
     (case row_get last_row ''RSI'' of
        Inl e \<Rightarrow> Inl e
      | Inr rsi_v \<Rightarrow>
          (let s = decide close ema9 rsi_v in
           if s \<noteq> ''Neutro'' then
             (let m = mensagem_de L ativo_nome mercado_nome s close in
              Inr (Some \<lparr>ativo = ativo_nome, sinal = s, preco_entrada = close,
                         stop_loss = (if s = ''Compra'' then cell_times close (1 - stop_dev)
                                      else cell_times close (1 + stop_dev)),
                         take_profit = (if s = ''Compra'' then cell_times close (1 + take_dev)
                                        else cell_times close (1 - stop_dev)),
                         mensagem = m\<rparr>,
                   send_telegram_message m []))
           else Inr (None, []))))))"

text \<open>
  The whole function (lines 62 to 105). The result has three parts: the value returned
  (\<open>None\<close> is "no signal"), the caller's series object after the call, and the messages
  sent to the notifier during the call.
\<close>

definition analisar_ativo ::
  "lib \<Rightarrow> dataframe option \<Rightarrow> string \<Rightarrow> string \<Rightarrow> real \<Rightarrow> real
     \<Rightarrow> signal option \<times> dataframe option \<times> string list" where
  "analisar_ativo L df ativo_nome mercado_nome stop_dev take_dev =
     (case df of
        None \<Rightarrow> (None, None, [])
      | Some d \<Rightarrow>
          if df_len d < 21 then (None, Some d, [])
          else
            (case compute_indicators L d of
               (d', Some e) \<Rightarrow> (None, Some d', [])
             | (d', None) \<Rightarrow>
                 if df_empty d' then (None, Some d', [])
                 else
                   (case decision L d' ativo_nome mercado_nome stop_dev take_dev of
                      Inl e \<Rightarrow> (None, Some d', [])
                    | Inr (res, msgs) \<Rightarrow> (res, Some d', msgs))))"

text \<open>
  The same call made a second time on the same series object: the second call receives
  the object as the first call left it.
\<close>

definition second_call ::
  "lib \<Rightarrow> dataframe option \<Rightarrow> string \<Rightarrow> string \<Rightarrow> real \<Rightarrow> real
     \<Rightarrow> signal option \<times> dataframe option \<times> string list" where
  "second_call L df ativo_nome mercado_nome stop_dev take_dev =
     analisar_ativo L (fst (snd (analisar_ativo L df ativo_nome mercado_nome stop_dev take_dev)))
       ativo_nome mercado_nome stop_dev take_dev"

section \<open>The fetcher \<open>obter_dados\<close>\<close>

text \<open>
  Lines 49 to 60. \<open>yf.download(ticker, period, interval)\<close> is the transport, a parameter:
  it yields a frame or raises. The result \<open>None\<close> is "no data".
\<close>

definition obter_dados ::
  "(string \<Rightarrow> string \<Rightarrow> string \<Rightarrow> exn + dataframe) \<Rightarrow> string \<Rightarrow> string \<Rightarrow> dataframe option" where
  "obter_dados download ticker tf =
     (case download ticker (if tf = ''15m'' \<or> tf = ''30m'' then ''60d'' else ''2y'') tf of
        Inl e \<Rightarrow> None
      | Inr data \<Rightarrow> if df_empty data then None else Some (dropna data))"

section \<open>The indicator library as the program uses it\<close>

text \<open>
  The behaviour of pandas and \<open>ta\<close> on which the program runs, with \<open>fillna=False\<close>
  throughout. \<open>Series.ewm(alpha, min_periods, adjust=False).mean()\<close> keeps a running
  weighted mean \<open>weighted\<close>, the weight \<open>old_wt\<close> of what it has seen and the count
  \<open>nobs\<close> of numbers seen. The first number starts the mean. At every later position
  \<open>old_wt\<close> is multiplied by \<open>1 - alpha\<close>; a number \<open>c\<close> there moves the mean to
  \<open>(old_wt * weighted + alpha * c) / (old_wt + alpha)\<close> (unless it equals the mean already)
  and resets \<open>old_wt\<close> to 1, a NaN leaves the mean as it is. The output at a position is
  the mean when \<open>nobs\<close> has reached \<open>min_periods\<close> and NaN before.
\<close>

definition blend :: "real \<Rightarrow> real \<Rightarrow> real \<Rightarrow> real \<Rightarrow> real" where
  "blend alpha old_wt w c =
     (if w = c then w
      else (old_wt * (1 - alpha) * w + alpha * c) / (old_wt * (1 - alpha) + alpha))"

definition emit :: "nat \<Rightarrow> nat \<Rightarrow> cell \<Rightarrow> cell" where
  "emit minp nobs weighted = (if minp \<le> nobs then weighted else None)"

fun ewm_loop :: "real \<Rightarrow> nat \<Rightarrow> cell \<Rightarrow> real \<Rightarrow> nat \<Rightarrow> series \<Rightarrow> series" where
  "ewm_loop alpha minp weighted old_wt nobs [] = []"
| "ewm_loop alpha minp None old_wt nobs (None # rest) =
     emit minp nobs None # ewm_loop alpha minp None old_wt nobs rest"
| "ewm_loop alpha minp None old_wt nobs (Some c # rest) =
     emit minp (Suc nobs) (Some c) # ewm_loop alpha minp (Some c) old_wt (Suc nobs) rest"
| "ewm_loop alpha minp (Some w) old_wt nobs (None # rest) =
     emit minp nobs (Some w) # ewm_loop alpha minp (Some w) (old_wt * (1 - alpha)) nobs rest"
| "ewm_loop alpha minp (Some w) old_wt nobs (Some c # rest) =
     emit minp (Suc nobs) (Some (blend alpha old_wt w c))
       # ewm_loop alpha minp (Some (blend alpha old_wt w c)) 1 (Suc nobs) rest"

definition ewm_mean :: "real \<Rightarrow> nat \<Rightarrow> series \<Rightarrow> series" where
  "ewm_mean alpha min_periods xs = ewm_loop alpha (max min_periods 1) None 1 0 xs"

text \<open>\<open>ta.utils._ema\<close>: \<open>series.ewm(span=periods, min_periods=periods, adjust=False).mean()\<close>.\<close>

definition ema :: "series \<Rightarrow> nat \<Rightarrow> series" where
  "ema xs periods = ewm_mean (2 / (real periods + 1)) periods xs"

definition cell_minus :: "cell \<Rightarrow> cell \<Rightarrow> cell" where
  "cell_minus a b = (case (a, b) of (Some x, Some y) \<Rightarrow> Some (x - y) | _ \<Rightarrow> None)"

text \<open>\<open>MACD(close).macd()\<close> with the default windows: the 12-period EMA minus the 26-period EMA.\<close>

definition ta_macd :: "series \<Rightarrow> series" where
  "ta_macd xs = map (\<lambda>(a, b). cell_minus a b) (zip (ema xs 12) (ema xs 26))"

text \<open>
  \<open>RSIIndicator(close).rsi()\<close> with the default window 14. \<open>close.diff(1)\<close> is NaN at the
  first position; \<open>diff.where(diff > 0, 0.0)\<close> keeps the gains and puts 0 elsewhere (also
  at NaN), and likewise for the losses. Both are smoothed with \<open>alpha = 1/14\<close>; the index
  is 100 where the smoothed loss is 0 and \<open>100 - 100 / (1 + up / down)\<close> otherwise.
\<close>

fun diff1 :: "series \<Rightarrow> series" where
  "diff1 [] = []"
| "diff1 (x # xs) = None # map (\<lambda>(cur, prev). cell_minus cur prev) (zip xs (x # xs))"

definition up_direction :: "series \<Rightarrow> series" where
  "up_direction d = map (\<lambda>v. case v of None \<Rightarrow> Some 0 | Some y \<Rightarrow> if y > 0 then Some y else Some 0) d"

definition down_direction :: "series \<Rightarrow> series" where
  "down_direction d = map (\<lambda>v. case v of None \<Rightarrow> Some 0 | Some y \<Rightarrow> if y < 0 then Some (- y) else Some 0) d"

definition rsi_of :: "cell \<Rightarrow> cell \<Rightarrow> cell" where
  "rsi_of emaup emadn =
     (case emadn of
        None \<Rightarrow> None
      | Some dn \<Rightarrow>
          if dn = 0 then Some 100
          else (case emaup of None \<Rightarrow> None | Some u \<Rightarrow> Some (100 - 100 / (1 + u / dn))))"

definition ta_rsi :: "series \<Rightarrow> series" where
  "ta_rsi xs =
     (let d = diff1 xs;
          emaup = ewm_mean (1 / 14) 14 (up_direction d);
          emadn = ewm_mean (1 / 14) 14 (down_direction d)
      in map (\<lambda>(u, dn). rsi_of u dn) (zip emaup emadn))"

text \<open>
  \<open>BollingerBands(close, window, window_dev)\<close>: \<open>close.rolling(window, min_periods=window)\<close>
  gives, at each position, the numbers among the last \<open>window\<close> cells; mean and standard
  deviation (\<open>ddof=0\<close>) are NaN when fewer than \<open>window\<close> numbers are there.
\<close>

definition window_at :: "nat \<Rightarrow> series \<Rightarrow> nat \<Rightarrow> real list" where
  "window_at w xs i = map the (filter (\<lambda>c. c \<noteq> None) (drop (Suc i - w) (take (Suc i) xs)))"

definition mean :: "real list \<Rightarrow> real" where
  "mean v = sum_list v / real (length v)"

definition std0 :: "real list \<Rightarrow> real" where
  "std0 v = sqrt (sum_list (map (\<lambda>x. (x - mean v)\<^sup>2) v) / real (length v))"

definition rolling :: "(real list \<Rightarrow> real) \<Rightarrow> nat \<Rightarrow> nat \<Rightarrow> series \<Rightarrow> series" where
  "rolling f w min_periods xs =
     map (\<lambda>i. if min_periods \<le> length (window_at w xs i) \<and> window_at w xs i \<noteq> []
               then Some (f (window_at w xs i)) else None)
       [0..<length xs]"

definition ta_bollinger :: "nat \<Rightarrow> real \<Rightarrow> series \<Rightarrow> series \<times> series" where
  "ta_bollinger w k xs =
     (let mavg = rolling mean w w xs; mstd = rolling std0 w w xs
      in (map (\<lambda>(m, s). case (m, s) of (Some a, Some b) \<Rightarrow> Some (a + k * b) | _ \<Rightarrow> None) (zip mavg mstd),
          map (\<lambda>(m, s). case (m, s) of (Some a, Some b) \<Rightarrow> Some (a - k * b) | _ \<Rightarrow> None) (zip mavg mstd)))"

text \<open>
  \<open>format(x, '.4f')\<close> prints the multiple of \<open>1/10000\<close> nearest to the value of the
  float, a tie going to the even one: sign, integer part, point, four decimals.
\<close>

definition round_half_even :: "real \<Rightarrow> int" where
  "round_half_even x =
     (if x - of_int \<lfloor>x\<rfloor> < 1 / 2 then \<lfloor>x\<rfloor>
      else if 1 / 2 < x - of_int \<lfloor>x\<rfloor> then \<lfloor>x\<rfloor> + 1
      else if even \<lfloor>x\<rfloor> then \<lfloor>x\<rfloor> else \<lfloor>x\<rfloor> + 1)"

fun show_nat :: "nat \<Rightarrow> string" where
  "show_nat n = (if n < 10 then [''0123456789'' ! n] else show_nat (n div 10) @ [''0123456789'' ! (n mod 10)])"

definition fmt_4f :: "real \<Rightarrow> string" where
  "fmt_4f x =
     (let n = nat (round_half_even (\<bar>x\<bar> * 10000)); frac = show_nat (n mod 10000)
      in (if x < 0 then ''-'' else []) @ show_nat (n div 10000) @ ''.''
           @ replicate (4 - length frac) (CHR ''0'') @ frac)"

definition ta_lib :: lib where
  "ta_lib = \<lparr>ema_indicator = (\<lambda>window xs. Inr (ema xs window)),
             macd = (\<lambda>xs. Inr (ta_macd xs)),
             rsi = (\<lambda>xs. Inr (ta_rsi xs)),
             bollinger_bands = (\<lambda>w k xs. Inr (Inr (fst (ta_bollinger w k xs)), Inr (snd (ta_bollinger w k xs)))),
             format_4f = fmt_4f\<rparr>"

section \<open>The price levels in double precision\<close>






section \<open>Example series\<close>

text \<open>
  Twenty-five closes rising by 10 and a last close that falls back by 43, and the first
  three bars of the same series.
\<close>

definition sell_closes :: "real list" where
  "sell_closes = [100, 110, 120, 130, 140, 150, 160, 170, 180, 190, 200, 210, 220, 230, 240,
                  250, 260, 270, 280, 290, 300, 310, 320, 330, 340, 297]"

definition sell_bars :: dataframe where
  "sell_bars = \<lparr>index = [0..<26], cols = [(''Close'', map Some sell_closes)]\<rparr>"

definition short_bars :: dataframe where
  "short_bars = \<lparr>index = [0..<3], cols = [(''Close'', map Some (take 3 sell_closes))]\<rparr>"

text \<open>
  The first 21 bars of the series, the 26 bars stored under another column name, and two
  transports: one that returns an empty payload and one that fails.
\<close>

definition warm_bars :: dataframe where
  "warm_bars = \<lparr>index = [0..<21], cols = [(''Close'', map Some (take 21 sell_closes))]\<rparr>"

definition no_close_bars :: dataframe where
  "no_close_bars = \<lparr>index = [0..<26], cols = [(''Open'', map Some sell_closes)]\<rparr>"

definition empty_payload :: "string \<Rightarrow> string \<Rightarrow> string \<Rightarrow> exn + dataframe" where
  "empty_payload ticker period interval = Inr \<lparr>index = [], cols = []\<rparr>"

definition failing_transport :: "string \<Rightarrow> string \<Rightarrow> string \<Rightarrow> exn + dataframe" where
  "failing_transport ticker period interval = Inl (OtherException ''ConnectionError'')"

text \<open>The indicator columns of the 26-bar series, and the frame before and after \<open>dropna\<close>.\<close>

definition sell_ema9 :: series where
  "sell_ema9 =
     [None, None, None, None, None, None, None, None, Some (11461788 / 78125), Some (60690902 /
     390625), Some (320888608 / 1953125), Some (1693710682 / 9765625), Some (8923280228 /
     48828125), Some (46923589662 / 244140625), Some (246288108648 / 1220703125), Some
     (1290328215842 / 6103515625), Some (6748226925868 / 30517578125), Some (35232653797222 /
     152587890625), Some (183655224563888 / 762939453125), Some (955873339661802 /
     3814697265625), Some (4967902538334708 / 19073486328125), Some (25784390915057582 /
     95367431640625), Some (133655141785230328 / 476837158203125), Some (691976829347952562 /
     2384185791015625), Some (3578530486337122748 / 11920928955078125), Some
     (17854637845006694117 / 59604644775390625)]"

definition sell_ema21 :: series where
  "sell_ema21 =
     [None, None, None, None, None, None, None, None, None, None, None, None, None, None, None,
     None, None, None, None, None, Some (144549998986512001840200 / 672749994932560009201), Some
     (1654052488294213621254310 / 7400249944258160101211), Some (18908604865104747444930620 /
     81402749386839761113321), Some (215948955948704595616702130 / 895430243255237372246531),
     Some (2463935842193826662730841840 / 9849732675807611094711841), Some
     (27564729026653127122437835177 / 108347059433883722041830251)]"

definition sell_macd :: series where
  "sell_macd =
     [None, None, None, None, None, None, None, None, None, None, None, None, None, None, None,
     None, None, None, None, None, None, None, None, None, None, Some
     (207588422438804369175063721612878386642667050804510811928786357996 /
     4292179852531405289179157677432162073424900651040260524586758751)]"

definition sell_rsi :: series where
  "sell_rsi =
     [None, None, None, None, None, None, None, None, None, None, None, None, None, Some 100,
     Some 100, Some 100, Some 100, Some 100, Some 100, Some 100, Some 100, Some 100, Some 100,
     Some 100, Some 100, Some (17364093045281907755866699657500 /
     242746224011800507698815380319)]"

definition sell_bb_high :: series where
  "sell_bb_high =
     [None, None, None, None, None, None, None, None, None, None, None, None, None, None, None,
     None, None, None, None, Some (195 + 2 * sqrt (3325)), Some (205 + 2 * sqrt (3325)), Some
     (215 + 2 * sqrt (3325)), Some (225 + 2 * sqrt (3325)), Some (235 + 2 * sqrt (3325)), Some
     (245 + 2 * sqrt (3325)), Some (5047 / 20 + 2 * sqrt (1181971 / 400))]"

definition sell_bb_low :: series where
  "sell_bb_low =
     [None, None, None, None, None, None, None, None, None, None, None, None, None, None, None,
     None, None, None, None, Some (195 - 2 * sqrt (3325)), Some (205 - 2 * sqrt (3325)), Some
     (215 - 2 * sqrt (3325)), Some (225 - 2 * sqrt (3325)), Some (235 - 2 * sqrt (3325)), Some
     (245 - 2 * sqrt (3325)), Some (5047 / 20 - 2 * sqrt (1181971 / 400))]"

definition sell_full :: dataframe where
  "sell_full = \<lparr>index = [0..<26],
                 cols = [(''Close'', map Some sell_closes), (''EMA9'', sell_ema9), (''EMA21'', sell_ema21),
                         (''MACD'', sell_macd), (''RSI'', sell_rsi), (''BB_High'', sell_bb_high),
                         (''BB_Low'', sell_bb_low)]\<rparr>"

definition sell_frame :: dataframe where
  "sell_frame = \<lparr>index = [25],
                  cols = [(''Close'', [Some 297]), (''EMA9'', [last sell_ema9]), (''EMA21'', [last sell_ema21]),
                          (''MACD'', [last sell_macd]), (''RSI'', [last sell_rsi]),
                          (''BB_High'', [last sell_bb_high]), (''BB_Low'', [last sell_bb_low])]\<rparr>"

definition sell_signal :: signal where
  "sell_signal = \<lparr>ativo = ''BTC-USD'', sinal = ''Venda'', preco_entrada = Some 297,
                   stop_loss = Some (297 * (1 + 3 / 1000)), take_profit = Some (297 * (1 - 3 / 1000)),
                   mensagem = ''Sinal para BTC-USD (Criptomoedas): Venda @ 297.0000''\<rparr>"

section \<open>Properties\<close>

subsection \<open>Facts about the frame operations\<close>

lemma df_len_dropna: "df_len (dropna df) = length (kept df)"
  by (simp add: dropna_def df_len_def)

lemma index_dropna: "index (dropna df) = map (\<lambda>i. index df ! i) (kept df)"
  by (simp add: dropna_def)

lemma map_of_cols_dropna:
  "map_of (cols (dropna df)) name = map_option (\<lambda>c. map (\<lambda>i. c ! i) (kept df)) (map_of (cols df) name)"
  by (simp add: dropna_def map_of_map)

lemma kept_row_ok: "i \<in> set (kept df) \<Longrightarrow> row_ok df i"
  by (simp add: kept_def)

lemma row_ok_col:
  "row_ok df i \<Longrightarrow> map_of (cols df) name = Some c \<Longrightarrow> i < length c \<and> c ! i \<noteq> None"
  by (auto simp: row_ok_def list_all_iff dest!: map_of_SomeD)

lemma dropna_col_defined:
  assumes "map_of (cols (dropna df)) name = Some c"
  shows "length c = df_len (dropna df) \<and> None \<notin> set c"
proof -
  from assms obtain c0 where c0: "map_of (cols df) name = Some c0"
    and c: "c = map (\<lambda>i. c0 ! i) (kept df)"
    by (auto simp: map_of_cols_dropna)
  have "c0 ! i \<noteq> None" if "i \<in> set (kept df)" for i
    using row_ok_col [OF kept_row_ok [OF that] c0] by simp
  then have "None \<notin> set c" by (fastforce simp: c)
  then show ?thesis by (simp add: c df_len_dropna)
qed

lemma map_of_last:
  "map_of (map (\<lambda>(k, c). (k, if c = [] then None else last c)) xs) name
     = map_option (\<lambda>c. if c = [] then None else last c) (map_of xs name)"
  by (simp add: map_of_map)

lemma iloc_last_get:
  assumes "index df \<noteq> []" and "map_of (cols df) name = Some c"
  shows "\<exists>last_row. iloc_last df = Inr last_row \<and>
           row_get last_row name = Inr (if c = [] then None else last c)"
  using assms by (simp add: iloc_last_def row_get_def map_of_last)

lemma dropna_last_cell:
  assumes ne: "\<not> df_empty (dropna df)" and col: "map_of (cols (dropna df)) name = Some c"
  shows "\<exists>x. (if c = [] then None else last c) = Some x"
proof -
  from ne have "df_len (dropna df) \<noteq> 0" by (simp add: df_empty_def df_len_def)
  with dropna_col_defined [OF col] have "c \<noteq> []" and "None \<notin> set c" by auto
  then have "last c \<noteq> None" using last_in_set [of c] by metis
  with \<open>c \<noteq> []\<close> show ?thesis by auto
qed

subsection \<open>Facts about the indicator statements\<close>

lemma map_of_cols_df_set:
  "map_of (cols (df_set df name s)) = (map_of (cols df))(name \<mapsto> align (df_len df) s)"
  by (simp add: df_set_def update_conv')

lemma index_df_set: "index (df_set df name s) = index df"
  by (simp add: df_set_def)

lemma df_len_df_set: "df_len (df_set df name s) = df_len df"
  by (simp add: df_set_def df_len_def)

lemma add_indicator_Inr:
  assumes "add_indicator df name ind = Inr df'"
  shows "\<exists>c s. map_of (cols df) ''Close'' = Some c \<and> ind c = Inr s \<and> df' = df_set df name s"
  using assms by (auto simp: add_indicator_def df_get_def split: option.splits sum.splits)

lemma add_bollinger_None:
  assumes "add_bollinger L df = (df', None)"
  shows "\<exists>c hband lband. map_of (cols df) ''Close'' = Some c \<and>
           bollinger_bands L 20 2 c = Inr (Inr hband, Inr lband) \<and>
           df' = df_set (df_set df ''BB_High'' hband) ''BB_Low'' lband"
  using assms
  by (auto simp: add_bollinger_def df_get_def prod_eq_iff split: option.splits sum.splits)

text \<open>What the frame holds after lines 70 to 76 when no statement raised.\<close>

lemma add_indicators_None:
  assumes "add_indicators L d = (d5, None)"
  shows "\<exists>c e9 e21 m r hband lband.
           map_of (cols d) ''Close'' = Some c \<and>
           ema_indicator L 9 c = Inr e9 \<and> ema_indicator L 21 c = Inr e21 \<and> macd L c = Inr m \<and>
           rsi L c = Inr r \<and> bollinger_bands L 20 2 c = Inr (Inr hband, Inr lband) \<and>
           d5 = df_set (df_set (df_set (df_set (df_set (df_set d ''EMA9'' e9) ''EMA21'' e21) ''MACD'' m)
                  ''RSI'' r) ''BB_High'' hband) ''BB_Low'' lband"
proof -
  from assms obtain d1 d2 d3 d4 where
    s1: "add_indicator d ''EMA9'' (ema_indicator L 9) = Inr d1" and
    s2: "add_indicator d1 ''EMA21'' (ema_indicator L 21) = Inr d2" and
    s3: "add_indicator d2 ''MACD'' (macd L) = Inr d3" and
    s4: "add_indicator d3 ''RSI'' (rsi L) = Inr d4" and
    s5: "add_bollinger L d4 = (d5, None)"
    by (auto simp: add_indicators_def split: sum.splits)
  from add_indicator_Inr [OF s1] obtain c e9 where
    c: "map_of (cols d) ''Close'' = Some c" and e9: "ema_indicator L 9 c = Inr e9"
    and d1: "d1 = df_set d ''EMA9'' e9" by blast
  from add_indicator_Inr [OF s2] c obtain e21 where
    e21: "ema_indicator L 21 c = Inr e21" and d2: "d2 = df_set d1 ''EMA21'' e21"
    by (auto simp: d1 map_of_cols_df_set)
  from add_indicator_Inr [OF s3] c obtain m where
    m: "macd L c = Inr m" and d3: "d3 = df_set d2 ''MACD'' m"
    by (auto simp: d1 d2 map_of_cols_df_set)
  from add_indicator_Inr [OF s4] c obtain r where
    r: "rsi L c = Inr r" and d4: "d4 = df_set d3 ''RSI'' r"
    by (auto simp: d1 d2 d3 map_of_cols_df_set)
  from add_bollinger_None [OF s5] c obtain hband lband where
    bb: "bollinger_bands L 20 2 c = Inr (Inr hband, Inr lband)"
    and d5: "d5 = df_set (df_set d4 ''BB_High'' hband) ''BB_Low'' lband"
    by (auto simp: d1 d2 d3 d4 map_of_cols_df_set)
  show ?thesis using c e9 e21 m r bb by (simp add: d5 d4 d3 d2 d1)
qed

lemma add_indicators_has:
  assumes "add_indicators L d = (d5, None)"
  shows "index d5 = index d"
    and "map_of (cols d5) ''Close'' \<noteq> None"
    and "map_of (cols d5) ''EMA9'' \<noteq> None"
    and "map_of (cols d5) ''RSI'' \<noteq> None"
  using add_indicators_None [OF assms]
  by (auto simp: map_of_cols_df_set index_df_set)

lemma compute_indicators_None:
  "compute_indicators L d = (d', None) \<longleftrightarrow> (\<exists>d5. add_indicators L d = (d5, None) \<and> d' = dropna d5)"
  by (auto simp: compute_indicators_def split: prod.splits option.splits)

lemma compute_indicators_Some:
  "compute_indicators L d = (d', Some e) \<longleftrightarrow> add_indicators L d = (d', Some e)"
  by (auto simp: compute_indicators_def split: prod.splits option.splits)

text \<open>The last remaining row has numbers in the three columns the rule reads.\<close>

lemma last_row_cells:
  assumes ok: "compute_indicators L d = (d', None)" and ne: "\<not> df_empty d'"
  shows "\<exists>last_row c e r. iloc_last d' = Inr last_row \<and> row_get last_row ''Close'' = Inr (Some c) \<and>
           row_get last_row ''EMA9'' = Inr (Some e) \<and> row_get last_row ''RSI'' = Inr (Some r)"
proof -
  from ok obtain d5 where d5: "add_indicators L d = (d5, None)" and d': "d' = dropna d5"
    by (auto simp: compute_indicators_None)
  from add_indicators_has(2-4) [OF d5] obtain cc ce cr where
    "map_of (cols d') ''Close'' = Some cc" "map_of (cols d') ''EMA9'' = Some ce"
    "map_of (cols d') ''RSI'' = Some cr"
    by (auto simp: d' map_of_cols_dropna)
  note cs = this
  from ne have idx: "index d' \<noteq> []" by (simp add: df_empty_def)
  from iloc_last_get [OF idx cs(1)] iloc_last_get [OF idx cs(2)] iloc_last_get [OF idx cs(3)]
    dropna_last_cell [OF ne [unfolded d'] cs(1) [unfolded d']]
    dropna_last_cell [OF ne [unfolded d'] cs(2) [unfolded d']]
    dropna_last_cell [OF ne [unfolded d'] cs(3) [unfolded d']]
  show ?thesis by auto
qed


subsection \<open>The evaluator on a frame that passes the guards\<close>

lemma analisar_ativo_passes:
  assumes len: "21 \<le> df_len d" and ok: "compute_indicators L d = (d', None)" and ne: "\<not> df_empty d'"
    and row: "iloc_last d' = Inr last_row" "row_get last_row ''Close'' = Inr close"
      "row_get last_row ''EMA9'' = Inr ema9" "row_get last_row ''RSI'' = Inr rsi_v"
  shows "analisar_ativo L (Some d) ativo_nome mercado_nome stop_dev take_dev =
     (if decide close ema9 rsi_v \<noteq> ''Neutro'' then
        (Some \<lparr>ativo = ativo_nome, sinal = decide close ema9 rsi_v, preco_entrada = close,
               stop_loss = (if decide close ema9 rsi_v = ''Compra'' then cell_times close (1 - stop_dev)
                            else cell_times close (1 + stop_dev)),
               take_profit = (if decide close ema9 rsi_v = ''Compra'' then cell_times close (1 + take_dev)
                              else cell_times close (1 - stop_dev)),
               mensagem = mensagem_de L ativo_nome mercado_nome (decide close ema9 rsi_v) close\<rparr>,
         Some d', [mensagem_de L ativo_nome mercado_nome (decide close ema9 rsi_v) close])
      else (None, Some d', []))"
  using len ne by (simp add: analisar_ativo_def ok decision_def row Let_def send_telegram_message_def)

lemma decide_cases:
  "decide (Some c) (Some e) (Some r) =
     (if c > e \<and> r < 30 then ''Compra'' else if c < e \<and> r > 70 then ''Venda'' else ''Neutro'')"
  by (simp add: decide_def cell_gt_def cell_lt_def)

subsection \<open>Evaluating the example series\<close>

lemmas ewm_eval = ema_def ewm_mean_def blend_def emit_def sell_closes_def

lemma sell_ema9_eval: "ema (map Some sell_closes) 9 = sell_ema9"
  by (simp add: ewm_eval sell_ema9_def)

lemma sell_ema21_eval: "ema (map Some sell_closes) 21 = sell_ema21"
  by (simp add: ewm_eval sell_ema21_def)

lemma sell_macd_eval: "ta_macd (map Some sell_closes) = sell_macd"
  by (simp add: ta_macd_def cell_minus_def ewm_eval sell_macd_def)

lemma sell_rsi_eval: "ta_rsi (map Some sell_closes) = sell_rsi"
  by (simp add: ta_rsi_def Let_def rsi_of_def up_direction_def down_direction_def cell_minus_def
        ewm_eval sell_rsi_def)

lemma sell_bb_eval: "ta_bollinger 20 2 (map Some sell_closes) = (sell_bb_high, sell_bb_low)"
  by (simp add: ta_bollinger_def rolling_def window_at_def mean_def std0_def sell_closes_def Let_def
        sell_bb_high_def sell_bb_low_def power2_eq_square)


lemma length_sell_cols:
  "length sell_ema9 = 26" "length sell_ema21 = 26" "length sell_macd = 26" "length sell_rsi = 26"
  "length sell_bb_high = 26" "length sell_bb_low = 26"
  by (simp_all add: sell_ema9_def sell_ema21_def sell_macd_def sell_rsi_def sell_bb_high_def sell_bb_low_def)

lemma sell_add: "add_indicators ta_lib sell_bars = (sell_full, None)"
  by (simp add: add_indicators_def add_indicator_def add_bollinger_def df_get_def df_set_def df_len_def
        align_def ta_lib_def sell_bars_def sell_full_def sell_ema9_eval sell_ema21_eval sell_macd_eval
        sell_rsi_eval sell_bb_eval length_sell_cols)



lemmas sell_cols = sell_ema9_def sell_ema21_def sell_macd_def sell_rsi_def sell_bb_high_def
  sell_bb_low_def sell_closes_def

lemma upt26: "[0..<26] = [0, 1, 2, 3, 4, 5, 6, 7, 8, 9, 10, 11, 12, 13, 14, 15, 16, 17, 18, 19, 20, 21, 22, 23, 24, 25]"
  by (simp add: upt_rec)

lemma kept_sell_full: "kept sell_full = [25]"
  by (simp add: kept_def row_ok_def df_len_def sell_full_def upt26 sell_cols del: not_None_eq)

lemma sell_dropna: "dropna sell_full = sell_frame"
  unfolding dropna_def kept_sell_full by (simp add: sell_full_def sell_frame_def sell_cols)


lemma sell_compute: "compute_indicators ta_lib sell_bars = (sell_frame, None)"
  by (simp add: compute_indicators_def sell_add sell_dropna)

lemma sell_last_row:
  "iloc_last sell_frame = Inr [(''Close'', Some 297), (''EMA9'', last sell_ema9), (''EMA21'', last sell_ema21),
      (''MACD'', last sell_macd), (''RSI'', last sell_rsi), (''BB_High'', last sell_bb_high),
      (''BB_Low'', last sell_bb_low)]"
  by (simp add: iloc_last_def sell_frame_def)

lemma sell_decide: "decide (Some 297) (last sell_ema9) (last sell_rsi) = ''Venda''"
  by (simp add: decide_def cell_gt_def cell_lt_def sell_ema9_def sell_rsi_def)

lemma replicate_3: "replicate 3 c = [c, c, c]"
  unfolding numeral_3_eq_3 by simp

lemma fmt_297: "fmt_4f 297 = ''297.0000''"
  by (simp add: fmt_4f_def round_half_even_def Let_def replicate_3)

lemma format_4f_ta_lib: "format_4f ta_lib = fmt_4f"
  by (simp add: ta_lib_def)

lemma sell_run:
  "analisar_ativo ta_lib (Some sell_bars) ''BTC-USD'' ''Criptomoedas'' (3 / 1000) (3 / 1000)
     = (Some sell_signal, Some sell_frame, [''Sinal para BTC-USD (Criptomoedas): Venda @ 297.0000''])"
proof -
  let ?row = "[(''Close'', Some 297), (''EMA9'', last sell_ema9), (''EMA21'', last sell_ema21),
      (''MACD'', last sell_macd), (''RSI'', last sell_rsi), (''BB_High'', last sell_bb_high),
      (''BB_Low'', last sell_bb_low)]"
  have len: "21 \<le> df_len sell_bars" by (simp add: df_len_def sell_bars_def)
  have ne: "\<not> df_empty sell_frame" by (simp add: df_empty_def sell_frame_def)
  have r1: "row_get ?row ''Close'' = Inr (Some 297)" by (simp add: row_get_def)
  have r2: "row_get ?row ''EMA9'' = Inr (last sell_ema9)" by (simp add: row_get_def)
  have r3: "row_get ?row ''RSI'' = Inr (last sell_rsi)" by (simp add: row_get_def)
  show ?thesis
    unfolding analisar_ativo_passes [OF len sell_compute ne sell_last_row r1 r2 r3]
    by (simp add: sell_decide mensagem_de_def format_cell_def format_4f_ta_lib fmt_297 sell_signal_def
          cell_times_def)
qed

text \<open>
  C1. On a series that passes the length guard, whose indicator computation does not
  raise and leaves at least one row, the last remaining row has numbers for close, EMA9
  and RSI, and they alone decide: Buy when close > EMA9 and RSI < 30, otherwise Sell
  when close < EMA9 and RSI > 70, otherwise no signal object.
\<close>

theorem decision_rule:
  assumes len: "21 \<le> df_len d" and ok: "compute_indicators L d = (d', None)" and ne: "\<not> df_empty d'"
  shows "\<exists>last_row c e r.
           iloc_last d' = Inr last_row \<and> row_get last_row ''Close'' = Inr (Some c) \<and>
           row_get last_row ''EMA9'' = Inr (Some e) \<and> row_get last_row ''RSI'' = Inr (Some r) \<and>
           (c > e \<and> r < 30 \<longrightarrow>
              (\<exists>s. fst (analisar_ativo L (Some d) ativo_nome mercado_nome stop_dev take_dev) = Some s
                   \<and> sinal s = ''Compra'')) \<and>
           (\<not> (c > e \<and> r < 30) \<and> c < e \<and> r > 70 \<longrightarrow>
              (\<exists>s. fst (analisar_ativo L (Some d) ativo_nome mercado_nome stop_dev take_dev) = Some s
                   \<and> sinal s = ''Venda'')) \<and>
           (\<not> (c > e \<and> r < 30) \<and> \<not> (c < e \<and> r > 70) \<longrightarrow>
              fst (analisar_ativo L (Some d) ativo_nome mercado_nome stop_dev take_dev) = None)"
proof -
  from last_row_cells [OF ok ne] obtain last_row c e r where
    row: "iloc_last d' = Inr last_row" "row_get last_row ''Close'' = Inr (Some c)"
      "row_get last_row ''EMA9'' = Inr (Some e)" "row_get last_row ''RSI'' = Inr (Some r)"
    by blast
  have "c > e \<and> r < 30 \<longrightarrow>
          (\<exists>s. fst (analisar_ativo L (Some d) ativo_nome mercado_nome stop_dev take_dev) = Some s
               \<and> sinal s = ''Compra'')"
    by (simp add: analisar_ativo_passes [OF len ok ne row] decide_cases)
  moreover have "\<not> (c > e \<and> r < 30) \<and> c < e \<and> r > 70 \<longrightarrow>
          (\<exists>s. fst (analisar_ativo L (Some d) ativo_nome mercado_nome stop_dev take_dev) = Some s
               \<and> sinal s = ''Venda'')"
    by (simp add: analisar_ativo_passes [OF len ok ne row] decide_cases)
  moreover have "\<not> (c > e \<and> r < 30) \<and> \<not> (c < e \<and> r > 70) \<longrightarrow>
          fst (analisar_ativo L (Some d) ativo_nome mercado_nome stop_dev take_dev) = None"
    by (simp add: analisar_ativo_passes [OF len ok ne row] decide_cases)
  ultimately show ?thesis using row by blast
qed

theorem decision_rule_witness:
  "21 \<le> df_len sell_bars \<and> compute_indicators ta_lib sell_bars = (sell_frame, None) \<and>
   \<not> df_empty sell_frame \<and>
   (\<exists>last_row c e r.
      iloc_last sell_frame = Inr last_row \<and> row_get last_row ''Close'' = Inr (Some c) \<and>
      row_get last_row ''EMA9'' = Inr (Some e) \<and> row_get last_row ''RSI'' = Inr (Some r) \<and>
      (c > e \<and> r < 30 \<longrightarrow>
         (\<exists>s. fst (analisar_ativo ta_lib (Some sell_bars) ''BTC-USD'' ''Criptomoedas'' (3 / 1000) (3 / 1000)) = Some s
              \<and> sinal s = ''Compra'')) \<and>
      (\<not> (c > e \<and> r < 30) \<and> c < e \<and> r > 70 \<longrightarrow>
         (\<exists>s. fst (analisar_ativo ta_lib (Some sell_bars) ''BTC-USD'' ''Criptomoedas'' (3 / 1000) (3 / 1000)) = Some s
              \<and> sinal s = ''Venda'')) \<and>
      (\<not> (c > e \<and> r < 30) \<and> \<not> (c < e \<and> r > 70) \<longrightarrow>
         fst (analisar_ativo ta_lib (Some sell_bars) ''BTC-USD'' ''Criptomoedas'' (3 / 1000) (3 / 1000)) = None))"
proof -
  have len: "21 \<le> df_len sell_bars" by (simp add: df_len_def sell_bars_def)
  have ne: "\<not> df_empty sell_frame" by (simp add: df_empty_def sell_frame_def)
  from decision_rule [OF len sell_compute ne, of "''BTC-USD''" "''Criptomoedas''" "3 / 1000" "3 / 1000"]
    len sell_compute ne
  show ?thesis by (intro conjI)
qed

lemma decide_signal:
  assumes "decide close ema9 rsi_v \<noteq> ''Neutro''"
  shows "\<exists>c. close = Some c" and "decide close ema9 rsi_v = ''Compra'' \<or> decide close ema9 rsi_v = ''Venda''"
  using assms by (auto simp: decide_def cell_gt_def cell_lt_def split: option.splits if_splits)

text \<open>What a returned signal tells about the run that produced it.\<close>

lemma analisar_ativo_Some:
  assumes "analisar_ativo L df ativo_nome mercado_nome stop_dev take_dev = (Some s, df', msgs)"
  shows "\<exists>d d' last_row close ema9 rsi_v.
           df = Some d \<and> 21 \<le> df_len d \<and> compute_indicators L d = (d', None) \<and> \<not> df_empty d' \<and>
           df' = Some d' \<and> iloc_last d' = Inr last_row \<and> row_get last_row ''Close'' = Inr close \<and>
           row_get last_row ''EMA9'' = Inr ema9 \<and> row_get last_row ''RSI'' = Inr rsi_v \<and>
           decide close ema9 rsi_v \<noteq> ''Neutro'' \<and>
           s = \<lparr>ativo = ativo_nome, sinal = decide close ema9 rsi_v, preco_entrada = close,
                 stop_loss = (if decide close ema9 rsi_v = ''Compra'' then cell_times close (1 - stop_dev)
                              else cell_times close (1 + stop_dev)),
                 take_profit = (if decide close ema9 rsi_v = ''Compra'' then cell_times close (1 + take_dev)
                                else cell_times close (1 - stop_dev)),
                 mensagem = mensagem_de L ativo_nome mercado_nome (decide close ema9 rsi_v) close\<rparr> \<and>
           msgs = [mensagem s]"
proof -
  from assms obtain d where df: "df = Some d"
    by (cases df) (auto simp: analisar_ativo_def)
  from assms have len: "21 \<le> df_len d"
    by (auto simp: analisar_ativo_def df split: if_splits)
  obtain d' ex where ci: "compute_indicators L d = (d', ex)"
    by (cases "compute_indicators L d")
  from assms len have ex: "ex = None" and ne: "\<not> df_empty d'" and df': "df' = Some d'"
    by (auto simp: analisar_ativo_def df ci split: option.splits if_splits sum.splits)
  from assms len ne have dec: "decision L d' ativo_nome mercado_nome stop_dev take_dev = Inr (Some s, msgs)"
    by (auto simp: analisar_ativo_def df ci ex split: sum.splits)
  from dec obtain last_row where r0: "iloc_last d' = Inr last_row"
    by (cases "iloc_last d'") (auto simp: decision_def)
  from dec r0 obtain close where r1: "row_get last_row ''Close'' = Inr close"
    by (cases "row_get last_row ''Close''") (auto simp: decision_def)
  from dec r0 r1 obtain ema9 where r2: "row_get last_row ''EMA9'' = Inr ema9"
    by (cases "row_get last_row ''EMA9''") (auto simp: decision_def)
  from dec r0 r1 r2 obtain rsi_v where r3: "row_get last_row ''RSI'' = Inr rsi_v"
    by (cases "row_get last_row ''RSI''") (auto simp: decision_def)
  from dec have rest: "decide close ema9 rsi_v \<noteq> ''Neutro'' \<and>
      s = \<lparr>ativo = ativo_nome, sinal = decide close ema9 rsi_v, preco_entrada = close,
                 stop_loss = (if decide close ema9 rsi_v = ''Compra'' then cell_times close (1 - stop_dev)
                              else cell_times close (1 + stop_dev)),
                 take_profit = (if decide close ema9 rsi_v = ''Compra'' then cell_times close (1 + take_dev)
                                else cell_times close (1 - stop_dev)),
                 mensagem = mensagem_de L ativo_nome mercado_nome (decide close ema9 rsi_v) close\<rparr> \<and>
      msgs = [mensagem s]"
    by (auto simp: decision_def r0 r1 r2 r3 Let_def send_telegram_message_def split: if_splits)
  with df len ci ex ne df' r0 r1 r2 r3 show ?thesis by blast
qed

text \<open>
  C2. For every signal the evaluator returns, the entry is the close of the last
  remaining row; a Buy has stop = entry * (1 - stop_dev) and target = entry * (1 + take_dev);
  a Sell has stop = entry * (1 + stop_dev) and target = entry * (1 - stop_dev), the stop
  deviation again. A returned signal is a Buy or a Sell.
\<close>

theorem signal_levels:
  assumes "analisar_ativo L df ativo_nome mercado_nome stop_dev take_dev = (Some s, df', msgs)"
  shows "\<exists>d' last_row c.
           df' = Some d' \<and> iloc_last d' = Inr last_row \<and> row_get last_row ''Close'' = Inr (Some c) \<and>
           preco_entrada s = Some c \<and>
           (sinal s = ''Compra'' \<or> sinal s = ''Venda'') \<and>
           (sinal s = ''Compra'' \<longrightarrow>
              stop_loss s = Some (c * (1 - stop_dev)) \<and> take_profit s = Some (c * (1 + take_dev))) \<and>
           (sinal s = ''Venda'' \<longrightarrow>
              stop_loss s = Some (c * (1 + stop_dev)) \<and> take_profit s = Some (c * (1 - stop_dev)))"
proof -
  from analisar_ativo_Some [OF assms] obtain d' last_row close ema9 rsi_v where
    f: "df' = Some d'" "iloc_last d' = Inr last_row" "row_get last_row ''Close'' = Inr close"
      "decide close ema9 rsi_v \<noteq> ''Neutro''"
    and s: "s = \<lparr>ativo = ativo_nome, sinal = decide close ema9 rsi_v, preco_entrada = close,
                 stop_loss = (if decide close ema9 rsi_v = ''Compra'' then cell_times close (1 - stop_dev)
                              else cell_times close (1 + stop_dev)),
                 take_profit = (if decide close ema9 rsi_v = ''Compra'' then cell_times close (1 + take_dev)
                                else cell_times close (1 - stop_dev)),
                 mensagem = mensagem_de L ativo_nome mercado_nome (decide close ema9 rsi_v) close\<rparr>"
    by blast
  from decide_signal [OF f(4)] obtain c where c: "close = Some c"
    and dir: "decide close ema9 rsi_v = ''Compra'' \<or> decide close ema9 rsi_v = ''Venda''"
    by blast
  have "preco_entrada s = Some c" by (simp add: s c)
  moreover have "sinal s = ''Compra'' \<or> sinal s = ''Venda''" using dir by (simp add: s)
  moreover have "sinal s = ''Compra'' \<longrightarrow>
      stop_loss s = Some (c * (1 - stop_dev)) \<and> take_profit s = Some (c * (1 + take_dev))"
    by (simp add: s c cell_times_def)
  moreover have "sinal s = ''Venda'' \<longrightarrow>
      stop_loss s = Some (c * (1 + stop_dev)) \<and> take_profit s = Some (c * (1 - stop_dev))"
    by (simp add: s c cell_times_def)
  ultimately show ?thesis using f(1-3) c by blast
qed


theorem signal_levels_witness:
  "analisar_ativo ta_lib (Some sell_bars) ''BTC-USD'' ''Criptomoedas'' (3 / 1000) (3 / 1000)
     = (Some sell_signal, Some sell_frame, [''Sinal para BTC-USD (Criptomoedas): Venda @ 297.0000'']) \<and>
   (\<exists>d' last_row c.
      Some sell_frame = Some d' \<and> iloc_last d' = Inr last_row \<and> row_get last_row ''Close'' = Inr (Some c) \<and>
      preco_entrada sell_signal = Some c \<and>
      (sinal sell_signal = ''Compra'' \<or> sinal sell_signal = ''Venda'') \<and>
      (sinal sell_signal = ''Compra'' \<longrightarrow>
         stop_loss sell_signal = Some (c * (1 - 3 / 1000)) \<and> take_profit sell_signal = Some (c * (1 + 3 / 1000))) \<and>
      (sinal sell_signal = ''Venda'' \<longrightarrow>
         stop_loss sell_signal = Some (c * (1 + 3 / 1000)) \<and> take_profit sell_signal = Some (c * (1 - 3 / 1000))))"
  using signal_levels [OF sell_run] sell_run by (intro conjI)

text \<open>
  C4. For an absent series and for a series of fewer than 21 bars the evaluator returns
  no signal, leaves the series as it was (no indicator column is computed or stored) and
  sends nothing to the notifier, whatever the indicator library is.
\<close>

theorem short_series_no_signal:
  "(df = None \<or> (\<exists>d. df = Some d \<and> df_len d < 21)) \<Longrightarrow>
     analisar_ativo L df ativo_nome mercado_nome stop_dev take_dev = (None, df, [])"
  by (auto simp: analisar_ativo_def)

theorem short_series_no_signal_witness:
  "df_len short_bars < 21 \<and>
   analisar_ativo ta_lib (Some short_bars) ''EURUSD=X'' ''Forex'' (3 / 1000) (3 / 1000)
     = (None, Some short_bars, [])"
proof -
  have h: "df_len short_bars < 21"
    by (simp add: df_len_def short_bars_def)
  then have "Some short_bars = None \<or> (\<exists>d. Some short_bars = Some d \<and> df_len d < 21)"
    by simp
  from short_series_no_signal [OF this] h show ?thesis
    by simp
qed

subsection \<open>Warm-up of the modelled indicators\<close>

lemma length_ewm_loop: "length (ewm_loop alpha minp weighted old_wt nobs xs) = length xs"
  by (induction alpha minp weighted old_wt nobs xs rule: ewm_loop.induct) simp_all

text \<open>No output before \<open>min_periods\<close> numbers have been seen.\<close>

lemma ewm_loop_warmup:
  "i < length xs \<Longrightarrow> nobs + Suc i < minp \<Longrightarrow> ewm_loop alpha minp weighted old_wt nobs xs ! i = None"
proof (induction alpha minp weighted old_wt nobs xs arbitrary: i rule: ewm_loop.induct)
  case (1 alpha minp weighted old_wt nobs)
  then show ?case by simp
next
  case (2 alpha minp old_wt nobs rest)
  then show ?case by (cases i) (simp_all add: emit_def)
next
  case (3 alpha minp old_wt nobs c rest)
  then show ?case by (cases i) (simp_all add: emit_def)
next
  case (4 alpha minp w old_wt nobs rest)
  then show ?case by (cases i) (simp_all add: emit_def)
next
  case (5 alpha minp w old_wt nobs c rest)
  then show ?case by (cases i) (simp_all add: emit_def)
qed

lemma length_ema: "length (ema xs periods) = length xs"
  by (simp add: ema_def ewm_mean_def length_ewm_loop)

lemma ema_warmup: "i < length xs \<Longrightarrow> Suc i < periods \<Longrightarrow> ema xs periods ! i = None"
  by (simp add: ema_def ewm_mean_def ewm_loop_warmup)

lemma length_ta_macd: "length (ta_macd xs) = length xs"
  by (simp add: ta_macd_def length_ema)

lemma ta_macd_warmup: "i < length xs \<Longrightarrow> i < 25 \<Longrightarrow> ta_macd xs ! i = None"
  by (simp add: ta_macd_def length_ema ema_warmup cell_minus_def split: option.splits)

lemma align_nth: "i < n \<Longrightarrow> align n s ! i = (if i < length s then s ! i else None)"
  by (simp add: align_def nth_append)

lemma length_align: "length (align n s) = n"
  by (simp add: align_def)

subsection \<open>The indicator statements with the modelled library\<close>

lemma add_indicators_ta_lib:
  assumes "map_of (cols d) ''Close'' = Some c"
  shows "add_indicators ta_lib d =
           (df_set (df_set (df_set (df_set (df_set (df_set d ''EMA9'' (ema c 9)) ''EMA21'' (ema c 21))
               ''MACD'' (ta_macd c)) ''RSI'' (ta_rsi c)) ''BB_High'' (fst (ta_bollinger 20 2 c)))
               ''BB_Low'' (snd (ta_bollinger 20 2 c)), None)"
  using assms
  by (simp add: add_indicators_def add_indicator_def add_bollinger_def df_get_def ta_lib_def
        map_of_cols_df_set)

lemma add_indicators_ta_lib_raises:
  assumes "map_of (cols d) ''Close'' = None"
  shows "add_indicators ta_lib d = (d, Some (KeyError ''Close''))"
  using assms by (simp add: add_indicators_def add_indicator_def df_get_def)

text \<open>A row that survives \<open>dropna\<close> has a MACD value, so it is the 26th bar or a later one.\<close>

lemma row_ok_after_warmup:
  assumes d5: "add_indicators ta_lib d = (d5, None)" and ok: "row_ok d5 i" and i: "i < df_len d"
  shows "25 \<le> i"
proof (rule ccontr)
  assume "\<not> 25 \<le> i"
  then have i25: "i < 25" by simp
  from add_indicators_None [OF d5] obtain c where c: "map_of (cols d) ''Close'' = Some c"
    by blast
  from d5 have d5_eq: "d5 = df_set (df_set (df_set (df_set (df_set (df_set d ''EMA9'' (ema c 9))
      ''EMA21'' (ema c 21)) ''MACD'' (ta_macd c)) ''RSI'' (ta_rsi c))
      ''BB_High'' (fst (ta_bollinger 20 2 c))) ''BB_Low'' (snd (ta_bollinger 20 2 c))"
    unfolding add_indicators_ta_lib [OF c] by simp
  have "map_of (cols d5) ''MACD'' = Some (align (df_len d) (ta_macd c))"
    unfolding d5_eq by (simp add: map_of_cols_df_set df_len_df_set)
  from row_ok_col [OF ok this] have "align (df_len d) (ta_macd c) ! i \<noteq> None" by simp
  with i i25 show False
    by (simp add: align_nth length_ta_macd ta_macd_warmup split: if_splits)
qed

lemma length_filter_from:
  assumes "\<And>i. i < n \<Longrightarrow> P i \<Longrightarrow> k \<le> i"
  shows "length (filter P [0..<n]) \<le> n - k"
proof -
  have d: "distinct (filter P [0..<n])" by simp
  have sub: "set (filter P [0..<n]) \<subseteq> {k..<n}" using assms by auto
  have "length (filter P [0..<n]) = card (set (filter P [0..<n]))"
    by (rule distinct_card [OF d, symmetric])
  also have "\<dots> \<le> card {k..<n}"
    by (rule card_mono [OF _ sub]) simp
  finally show ?thesis by simp
qed

lemma index_add_indicators: "add_indicators L d = (d5, None) \<Longrightarrow> df_len d5 = df_len d"
  using add_indicators_has(1) [of L d d5] by (simp add: df_len_def)

lemma kept_after_warmup:
  assumes d5: "add_indicators ta_lib d = (d5, None)"
  shows "length (kept d5) \<le> df_len d - 25"
  unfolding kept_def index_add_indicators [OF d5]
  by (rule length_filter_from) (rule row_ok_after_warmup [OF d5])


lemma macd_column_ta_lib:
  assumes d5: "add_indicators ta_lib d = (d5, None)" and c: "map_of (cols d) ''Close'' = Some c"
  shows "map_of (cols d5) ''MACD'' = Some (align (df_len d) (ta_macd c))"
proof -
  from d5 have d5_eq: "d5 = df_set (df_set (df_set (df_set (df_set (df_set d ''EMA9'' (ema c 9))
      ''EMA21'' (ema c 21)) ''MACD'' (ta_macd c)) ''RSI'' (ta_rsi c))
      ''BB_High'' (fst (ta_bollinger 20 2 c))) ''BB_Low'' (snd (ta_bollinger 20 2 c))"
    unfolding add_indicators_ta_lib [OF c] by simp
  show ?thesis unfolding d5_eq by (simp add: map_of_cols_df_set df_len_df_set)
qed

subsection \<open>Results of the evaluator by branch\<close>

lemma analisar_ativo_empty:
  assumes "compute_indicators L d = (d', None)" and "df_empty d'"
  shows "fst (analisar_ativo L (Some d) ativo_nome mercado_nome stop_dev take_dev) = None"
    and "snd (snd (analisar_ativo L (Some d) ativo_nome mercado_nome stop_dev take_dev)) = []"
    and "21 \<le> df_len d \<Longrightarrow>
           analisar_ativo L (Some d) ativo_nome mercado_nome stop_dev take_dev = (None, Some d', [])"
  using assms by (simp_all add: analisar_ativo_def)

lemma analisar_ativo_raised:
  assumes "compute_indicators L d = (d', Some e)"
  shows "fst (analisar_ativo L (Some d) ativo_nome mercado_nome stop_dev take_dev) = None"
    and "snd (snd (analisar_ativo L (Some d) ativo_nome mercado_nome stop_dev take_dev)) = []"
    and "21 \<le> df_len d \<Longrightarrow>
           analisar_ativo L (Some d) ativo_nome mercado_nome stop_dev take_dev = (None, Some d', [])"
  using assms by (simp_all add: analisar_ativo_def)

lemma dropna_no_rows:
  assumes "\<forall>i<df_len df. \<not> row_ok df i"
  shows "df_empty (dropna df)"
proof -
  from assms have "kept df = []" by (auto simp: kept_def filter_empty_conv)
  then show ?thesis by (simp add: df_empty_def index_dropna)
qed


text \<open>
  C5. When the indicator columns have been computed and every bar has an undefined value
  in some column, so that \<open>dropna\<close> leaves no row, the evaluator returns no signal and
  sends nothing, whatever the indicator library is.
\<close>

theorem undefined_rows_no_signal:
  assumes "add_indicators L d = (d5, None)" and "\<forall>i<df_len d5. \<not> row_ok d5 i"
  shows "df_empty (dropna d5) \<and>
         fst (analisar_ativo L (Some d) ativo_nome mercado_nome stop_dev take_dev) = None \<and>
         snd (snd (analisar_ativo L (Some d) ativo_nome mercado_nome stop_dev take_dev)) = []"
proof -
  from assms(1) have ci: "compute_indicators L d = (dropna d5, None)"
    by (simp add: compute_indicators_None)
  from dropna_no_rows [OF assms(2)] have e: "df_empty (dropna d5)" .
  from e analisar_ativo_empty(1,2) [OF ci e] show ?thesis by blast
qed

theorem undefined_rows_no_signal_witness:
  "add_indicators ta_lib warm_bars = (fst (add_indicators ta_lib warm_bars), None) \<and>
   df_empty (dropna (fst (add_indicators ta_lib warm_bars))) \<and>
   fst (analisar_ativo ta_lib (Some warm_bars) ''BTC-USD'' ''Criptomoedas'' (3 / 1000) (3 / 1000)) = None \<and>
   snd (snd (analisar_ativo ta_lib (Some warm_bars) ''BTC-USD'' ''Criptomoedas'' (3 / 1000) (3 / 1000))) = []"
proof -
  have c: "map_of (cols warm_bars) ''Close'' = Some (map Some (take 21 sell_closes))"
    by (simp add: warm_bars_def)
  have len: "df_len warm_bars = 21" by (simp add: warm_bars_def df_len_def)
  have d5: "add_indicators ta_lib warm_bars = (fst (add_indicators ta_lib warm_bars), None)"
    by (simp add: add_indicators_ta_lib [OF c])
  have rows: "\<forall>i<df_len (fst (add_indicators ta_lib warm_bars)). \<not> row_ok (fst (add_indicators ta_lib warm_bars)) i"
  proof (intro allI impI)
    fix i assume "i < df_len (fst (add_indicators ta_lib warm_bars))"
    then have i: "i < df_len warm_bars" by (simp add: index_add_indicators [OF d5])
    show "\<not> row_ok (fst (add_indicators ta_lib warm_bars)) i"
      using row_ok_after_warmup [OF d5 _ i] i len by auto
  qed
  from undefined_rows_no_signal [OF d5 rows] d5 show ?thesis by blast
qed

text \<open>
  C6. An exception raised by the indicator statements (lines 70 to 77) or by the decision
  logic (lines 84 to 102) ends the call with no signal and nothing sent: the handler of
  line 103 returns None. The evaluator's result has no exceptional outcome, so nothing is
  propagated to the caller.
\<close>

theorem exception_gives_no_signal:
  assumes "(\<exists>e. snd (compute_indicators L d) = Some e) \<or>
           (\<exists>e. decision L (fst (compute_indicators L d)) ativo_nome mercado_nome stop_dev take_dev = Inl e)"
  shows "fst (analisar_ativo L (Some d) ativo_nome mercado_nome stop_dev take_dev) = None \<and>
         snd (snd (analisar_ativo L (Some d) ativo_nome mercado_nome stop_dev take_dev)) = []"
proof (cases "compute_indicators L d")
  case (Pair d' ex)
  show ?thesis
  proof (cases ex)
    case None
    with Pair assms obtain e where "decision L d' ativo_nome mercado_nome stop_dev take_dev = Inl e"
      by auto
    with Pair None show ?thesis by (simp add: analisar_ativo_def)
  next
    case (Some e)
    with Pair analisar_ativo_raised(1,2) [of L d d' e] show ?thesis by simp
  qed
qed

theorem exception_gives_no_signal_witness:
  "snd (compute_indicators ta_lib no_close_bars) = Some (KeyError ''Close'') \<and>
   fst (analisar_ativo ta_lib (Some no_close_bars) ''BTC-USD'' ''Criptomoedas'' (3 / 1000) (3 / 1000)) = None \<and>
   snd (snd (analisar_ativo ta_lib (Some no_close_bars) ''BTC-USD'' ''Criptomoedas'' (3 / 1000) (3 / 1000))) = []"
proof -
  have "map_of (cols no_close_bars) ''Close'' = None" by (simp add: no_close_bars_def)
  then have r: "snd (compute_indicators ta_lib no_close_bars) = Some (KeyError ''Close'')"
    by (simp add: compute_indicators_def add_indicators_ta_lib_raises)
  then have "(\<exists>e. snd (compute_indicators ta_lib no_close_bars) = Some e) \<or>
      (\<exists>e. decision ta_lib (fst (compute_indicators ta_lib no_close_bars)) ''BTC-USD'' ''Criptomoedas''
              (3 / 1000) (3 / 1000) = Inl e)"
    by blast
  from exception_gives_no_signal [OF this] r show ?thesis by blast
qed

text \<open>
  C7. When the transport raises or returns an empty payload the fetcher returns None
  ("no data"). Its result has no exceptional outcome, so nothing is propagated to the caller.
\<close>

theorem fetcher_no_data:
  assumes "(\<exists>e. download ticker (if tf = ''15m'' \<or> tf = ''30m'' then ''60d'' else ''2y'') tf = Inl e) \<or>
           (\<exists>data. download ticker (if tf = ''15m'' \<or> tf = ''30m'' then ''60d'' else ''2y'') tf = Inr data
                  \<and> df_empty data)"
  shows "obter_dados download ticker tf = None"
  using assms by (auto simp: obter_dados_def)

theorem fetcher_no_data_witness:
  "empty_payload ''BTC-USD'' ''60d'' ''15m'' = Inr \<lparr>index = [], cols = []\<rparr> \<and>
   df_empty \<lparr>index = [], cols = []\<rparr> \<and>
   obter_dados empty_payload ''BTC-USD'' ''15m'' = None \<and>
   failing_transport ''BTC-USD'' ''2y'' ''1d'' = Inl (OtherException ''ConnectionError'') \<and>
   obter_dados failing_transport ''BTC-USD'' ''1d'' = None"
proof -
  have p: "empty_payload ''BTC-USD'' ''60d'' ''15m'' = Inr \<lparr>index = [], cols = []\<rparr>"
    by (simp add: empty_payload_def)
  have e: "df_empty \<lparr>index = [], cols = []\<rparr>" by (simp add: df_empty_def)
  have f: "failing_transport ''BTC-USD'' ''2y'' ''1d'' = Inl (OtherException ''ConnectionError'')"
    by (simp add: failing_transport_def)
  have h1: "(\<exists>e. empty_payload ''BTC-USD'' (if ''15m'' = ''15m'' \<or> ''15m'' = ''30m'' then ''60d'' else ''2y'') ''15m'' = Inl e) \<or>
      (\<exists>data. empty_payload ''BTC-USD'' (if ''15m'' = ''15m'' \<or> ''15m'' = ''30m'' then ''60d'' else ''2y'') ''15m'' = Inr data
             \<and> df_empty data)"
    using p e by simp
  have h2: "(\<exists>e. failing_transport ''BTC-USD'' (if ''1d'' = ''15m'' \<or> ''1d'' = ''30m'' then ''60d'' else ''2y'') ''1d'' = Inl e) \<or>
      (\<exists>data. failing_transport ''BTC-USD'' (if ''1d'' = ''15m'' \<or> ''1d'' = ''30m'' then ''60d'' else ''2y'') ''1d'' = Inr data
             \<and> df_empty data)"
    using f by simp
  from fetcher_no_data [of empty_payload "''BTC-USD''" "''15m''", OF h1]
    fetcher_no_data [of failing_transport "''BTC-USD''" "''1d''", OF h2] p e f
  show ?thesis by blast
qed

text \<open>
  C10. With the modelled library, a series of 21 to 25 bars that has a close column
  returns no signal: the MACD column, whose slow EMA has the default window 26, is NaN on
  every bar, so no bar has all indicators defined, \<open>dropna\<close> removes every bar and the
  call ends in the branch of line 79, with nothing sent.
\<close>

theorem warmup_series_no_signal:
  assumes len: "21 \<le> df_len d" "df_len d \<le> 25" and close: "df_get d ''Close'' = Inr c"
  shows "\<exists>d5 macd_column.
           add_indicators ta_lib d = (d5, None) \<and>
           map_of (cols d5) ''MACD'' = Some macd_column \<and> length macd_column = df_len d \<and>
           (\<forall>i<df_len d. macd_column ! i = None) \<and>
           (\<forall>i<df_len d5. \<not> row_ok d5 i) \<and>
           df_empty (dropna d5) \<and>
           analisar_ativo ta_lib (Some d) ativo_nome mercado_nome stop_dev take_dev
             = (None, Some (dropna d5), [])"
proof -
  from close have c: "map_of (cols d) ''Close'' = Some c"
    by (auto simp: df_get_def split: option.splits)
  obtain d5 where d5: "add_indicators ta_lib d = (d5, None)"
    using add_indicators_ta_lib [OF c] by blast
  have n5: "df_len d5 = df_len d" by (rule index_add_indicators [OF d5])
  have col: "map_of (cols d5) ''MACD'' = Some (align (df_len d) (ta_macd c))"
    by (rule macd_column_ta_lib [OF d5 c])
  have nan: "\<forall>i<df_len d. align (df_len d) (ta_macd c) ! i = None"
    using len(2) by (simp add: align_nth length_ta_macd ta_macd_warmup)
  have rows: "\<forall>i<df_len d5. \<not> row_ok d5 i"
    using row_ok_after_warmup [OF d5] len(2) n5 by fastforce
  have e: "df_empty (dropna d5)" by (rule dropna_no_rows [OF rows])
  have ci: "compute_indicators ta_lib d = (dropna d5, None)"
    using d5 by (simp add: compute_indicators_None)
  from analisar_ativo_empty(3) [OF ci e len(1)] d5 col nan rows e show ?thesis
    by (auto simp: length_align)
qed

theorem warmup_series_no_signal_witness:
  "21 \<le> df_len warm_bars \<and> df_len warm_bars \<le> 25 \<and>
   df_get warm_bars ''Close'' = Inr (map Some (take 21 sell_closes)) \<and>
   (\<exists>d5 macd_column.
      add_indicators ta_lib warm_bars = (d5, None) \<and>
      map_of (cols d5) ''MACD'' = Some macd_column \<and> length macd_column = df_len warm_bars \<and>
      (\<forall>i<df_len warm_bars. macd_column ! i = None) \<and>
      (\<forall>i<df_len d5. \<not> row_ok d5 i) \<and>
      df_empty (dropna d5) \<and>
      analisar_ativo ta_lib (Some warm_bars) ''BTC-USD'' ''Criptomoedas'' (3 / 1000) (3 / 1000)
        = (None, Some (dropna d5), []))"
proof -
  have l1: "21 \<le> df_len warm_bars" and l2: "df_len warm_bars \<le> 25"
    by (simp_all add: warm_bars_def df_len_def)
  have c: "df_get warm_bars ''Close'' = Inr (map Some (take 21 sell_closes))"
    by (simp add: warm_bars_def df_get_def)
  from warmup_series_no_signal [OF l1 l2 c, of "''BTC-USD''" "''Criptomoedas''" "3 / 1000" "3 / 1000"]
    l1 l2 c
  show ?thesis by (intro conjI)
qed

subsection \<open>The series object after a call\<close>

lemma analisar_ativo_frame:
  "21 \<le> df_len d \<Longrightarrow>
     fst (snd (analisar_ativo L (Some d) ativo_nome mercado_nome stop_dev take_dev))
       = Some (fst (compute_indicators L d))"
  by (simp add: analisar_ativo_def split: prod.splits option.splits sum.splits)

lemma names_df_set: "fst ` set (cols (df_set df name s)) = insert name (fst ` set (cols df))"
  by (simp add: dom_map_of_conv_image_fst [symmetric] map_of_cols_df_set)

lemma names_dropna: "fst ` set (cols (dropna df)) = fst ` set (cols df)"
  by (force simp: dropna_def)

lemma dropna_cells_defined:
  assumes "(name, c) \<in> set (cols (dropna df))"
  shows "length c = df_len (dropna df) \<and> None \<notin> set c"
proof -
  from assms obtain c0 where c0: "(name, c0) \<in> set (cols df)" and c: "c = map (\<lambda>i. c0 ! i) (kept df)"
    by (auto simp: dropna_def)
  have "c0 ! i \<noteq> None" if "i \<in> set (kept df)" for i
    using kept_row_ok [OF that] c0 by (auto simp: row_ok_def list_all_iff)
  then have "None \<notin> set c" by (fastforce simp: c)
  then show ?thesis by (simp add: c df_len_dropna)
qed

text \<open>
  C9. With the modelled library, on a series of at least 21 bars whose indicator
  statements do not raise, the series object the caller holds is, after the call, the
  frame with the six indicator columns added and only the fully defined rows kept: every
  remaining cell is a number, at most the rows after the first 25 (the warm-up of the
  MACD) remain, so there are fewer rows than before and the object differs from what it
  was before the call.
\<close>

theorem evaluator_mutates_series:
  assumes len: "21 \<le> df_len d" and ok: "add_indicators ta_lib d = (d5, None)"
  shows "\<exists>d'. fst (snd (analisar_ativo ta_lib (Some d) ativo_nome mercado_nome stop_dev take_dev)) = Some d' \<and>
           d' = dropna d5 \<and>
           fst ` set (cols d') =
             fst ` set (cols d) \<union> {''EMA9'', ''EMA21'', ''MACD'', ''RSI'', ''BB_High'', ''BB_Low''} \<and>
           index d' = map (\<lambda>i. index d ! i) (filter (row_ok d5) [0..<df_len d]) \<and>
           (\<forall>(name, c) \<in> set (cols d'). length c = df_len d' \<and> None \<notin> set c) \<and>
           df_len d' \<le> df_len d - 25 \<and> df_len d' < df_len d \<and>
           d' \<noteq> d"
proof -
  from add_indicators_None [OF ok] obtain e9 e21 m r hband lband where
    d5: "d5 = df_set (df_set (df_set (df_set (df_set (df_set d ''EMA9'' e9) ''EMA21'' e21) ''MACD'' m)
                  ''RSI'' r) ''BB_High'' hband) ''BB_Low'' lband"
    by blast
  have ci: "compute_indicators ta_lib d = (dropna d5, None)"
    using ok by (simp add: compute_indicators_None)
  have frame: "fst (snd (analisar_ativo ta_lib (Some d) ativo_nome mercado_nome stop_dev take_dev))
      = Some (dropna d5)"
    by (simp add: analisar_ativo_frame [OF len] ci)
  have names: "fst ` set (cols (dropna d5)) =
      fst ` set (cols d) \<union> {''EMA9'', ''EMA21'', ''MACD'', ''RSI'', ''BB_High'', ''BB_Low''}"
    unfolding names_dropna d5 names_df_set by (simp add: Un_insert_right insert_commute)
  have idx: "index (dropna d5) = map (\<lambda>i. index d ! i) (filter (row_ok d5) [0..<df_len d])"
    using add_indicators_has(1) [OF ok] index_add_indicators [OF ok]
    by (simp add: index_dropna kept_def)
  have cells: "\<forall>(name, c) \<in> set (cols (dropna d5)). length c = df_len (dropna d5) \<and> None \<notin> set c"
    using dropna_cells_defined by blast
  have short: "df_len (dropna d5) \<le> df_len d - 25"
    using kept_after_warmup [OF ok] by (simp add: df_len_dropna)
  with len have less: "df_len (dropna d5) < df_len d" by simp
  then have neq: "dropna d5 \<noteq> d" by blast
  from frame names idx cells short less neq show ?thesis by blast
qed

theorem evaluator_mutates_series_witness:
  "21 \<le> df_len sell_bars \<and> add_indicators ta_lib sell_bars = (sell_full, None) \<and>
   (\<exists>d'. fst (snd (analisar_ativo ta_lib (Some sell_bars) ''BTC-USD'' ''Criptomoedas'' (3 / 1000) (3 / 1000))) = Some d' \<and>
      d' = dropna sell_full \<and>
      fst ` set (cols d') =
        fst ` set (cols sell_bars) \<union> {''EMA9'', ''EMA21'', ''MACD'', ''RSI'', ''BB_High'', ''BB_Low''} \<and>
      index d' = map (\<lambda>i. index sell_bars ! i) (filter (row_ok sell_full) [0..<df_len sell_bars]) \<and>
      (\<forall>(name, c) \<in> set (cols d'). length c = df_len d' \<and> None \<notin> set c) \<and>
      df_len d' \<le> df_len sell_bars - 25 \<and> df_len d' < df_len sell_bars \<and>
      d' \<noteq> sell_bars)"
proof -
  have len: "21 \<le> df_len sell_bars" by (simp add: df_len_def sell_bars_def)
  from evaluator_mutates_series [OF len sell_add, of "''BTC-USD''" "''Criptomoedas''" "3 / 1000" "3 / 1000"]
    len sell_add
  show ?thesis by (intro conjI)
qed

text \<open>
  C8. Two calls on the same series object need not agree: on the 26-bar series the first
  call returns a Sell and leaves one row in the object, and the second call, on that
  object, returns no signal.
\<close>

theorem same_object_counterexample:
  "fst (analisar_ativo ta_lib (Some sell_bars) ''BTC-USD'' ''Criptomoedas'' (3 / 1000) (3 / 1000))
     \<noteq> fst (second_call ta_lib (Some sell_bars) ''BTC-USD'' ''Criptomoedas'' (3 / 1000) (3 / 1000))"
proof -
  have "df_len sell_frame < 21" by (simp add: df_len_def sell_frame_def)
  then have "fst (second_call ta_lib (Some sell_bars) ''BTC-USD'' ''Criptomoedas'' (3 / 1000) (3 / 1000)) = None"
    unfolding second_call_def sell_run by (simp add: analisar_ativo_def)
  then show ?thesis by (simp add: sell_run)
qed

text \<open>
  C8, amended. The second call sees the object as the first call left it. With the
  modelled library and a series of at most 45 bars, the second call returns no signal,
  sends nothing and leaves the object as it found it; so the two calls return the same
  result exactly when the first one returned no signal.
\<close>

theorem second_call_short_series:
  assumes "df_len d \<le> 45"
  shows "second_call ta_lib (Some d) ativo_nome mercado_nome stop_dev take_dev
           = (None, fst (snd (analisar_ativo ta_lib (Some d) ativo_nome mercado_nome stop_dev take_dev)), []) \<and>
         (fst (analisar_ativo ta_lib (Some d) ativo_nome mercado_nome stop_dev take_dev)
            = fst (second_call ta_lib (Some d) ativo_nome mercado_nome stop_dev take_dev)
          \<longleftrightarrow> fst (analisar_ativo ta_lib (Some d) ativo_nome mercado_nome stop_dev take_dev) = None)"
proof -
  have main: "second_call ta_lib (Some d) ativo_nome mercado_nome stop_dev take_dev
           = (None, fst (snd (analisar_ativo ta_lib (Some d) ativo_nome mercado_nome stop_dev take_dev)), [])"
  proof (cases "df_len d < 21")
    case True
    then show ?thesis by (simp add: second_call_def analisar_ativo_def)
  next
    case False
    then have len: "21 \<le> df_len d" by simp
    show ?thesis
    proof (cases "map_of (cols d) ''Close''")
      case None
      then have ci: "compute_indicators ta_lib d = (d, Some (KeyError ''Close''))"
        by (simp add: compute_indicators_def add_indicators_ta_lib_raises)
      from analisar_ativo_raised(3) [OF ci len]
      show ?thesis by (simp add: second_call_def)
    next
      case (Some c)
      obtain d5 where d5: "add_indicators ta_lib d = (d5, None)"
        using add_indicators_ta_lib [OF Some] by blast
      then have ci: "compute_indicators ta_lib d = (dropna d5, None)"
        by (simp add: compute_indicators_None)
      have frame: "fst (snd (analisar_ativo ta_lib (Some d) ativo_nome mercado_nome stop_dev take_dev))
          = Some (dropna d5)"
        by (simp add: analisar_ativo_frame [OF len] ci)
      have "df_len (dropna d5) < 21"
        using kept_after_warmup [OF d5] assms by (simp add: df_len_dropna)
      then show ?thesis unfolding second_call_def frame by (simp add: analisar_ativo_def)
    qed
  qed
  then show ?thesis by auto
qed

theorem second_call_short_series_witness:
  "df_len sell_bars \<le> 45 \<and>
   second_call ta_lib (Some sell_bars) ''BTC-USD'' ''Criptomoedas'' (3 / 1000) (3 / 1000)
     = (None, Some sell_frame, [])"
proof -
  have len: "df_len sell_bars \<le> 45" by (simp add: df_len_def sell_bars_def)
  from second_call_short_series [OF len, of "''BTC-USD''" "''Criptomoedas''" "3 / 1000" "3 / 1000"] len
  show ?thesis by (simp add: sell_run)
qed

subsection \<open>Rounding to double precision\<close>

lemma round_half_even_of_int: "round_half_even (of_int n) = n"
  by (simp add: round_half_even_def)


























subsection \<open>The levels of a returned signal\<close>





end
